theory Spec2Isabelle
  imports Main
begin

section \<open>Strings\<close>

text \<open>
  Python strings are modelled as HOL strings. \<open>str.strip()\<close> removes the white space of
  \<open>str.isspace\<close> at both ends; below code point 256 these are the twelve characters listed.
\<close>

definition isspace :: "char \<Rightarrow> bool" where
  "isspace c = ((of_char c :: nat) \<in> {9, 10, 11, 12, 13, 28, 29, 30, 31, 32, 133, 160})"

definition strip :: "string \<Rightarrow> string" where
  "strip s = rev (dropWhile isspace (rev (dropWhile isspace s)))"

text \<open>\<open>sub in s\<close> on two strings: \<open>sub\<close> occurs in \<open>s\<close> as a contiguous piece.\<close>

fun is_substring :: "string \<Rightarrow> string \<Rightarrow> bool" where
  "is_substring sub [] = (sub = [])"
| "is_substring sub (c # cs) = (take (length sub) (c # cs) = sub \<or> is_substring sub cs)"

section \<open>The parsed document\<close>

text \<open>
  The tree that BeautifulSoup's \<open>html.parser\<close> builds. An attribute value is a string, or
  a list of strings for the multi-valued attributes (\<open>class\<close> among them); the attributes
  of a tag are a dictionary.
\<close>

datatype attr_value = Str string | Multi "string list"

datatype node = NavigableString string | Comment string | Doctype string | Element tag
and tag = Tag (name: string) (attrs: "string \<rightharpoonup> attr_value") (contents: "node list")

type_synonym soup = "node list"

text \<open>
  A bs4 object knows its parent and its siblings. The library's own conversions may look
  at them, so they receive the place of a node: the document and the child indices that
  lead from its root to the node.
\<close>

type_synonym place = "soup \<times> nat list"

text \<open>\<open>sub in value\<close> for an attribute value: a substring test on a string, membership on a list.\<close>

definition py_in :: "string \<Rightarrow> attr_value \<Rightarrow> bool" where
  "py_in sub v = (case v of Str s \<Rightarrow> is_substring sub s | Multi xs \<Rightarrow> sub \<in> set xs)"

section \<open>Dates, times and paths\<close>

text \<open>An aware \<open>datetime\<close>: the local fields, the offset from UTC in seconds and the zone's abbreviation.\<close>

record datetime =
  year :: nat
  month :: nat
  day :: nat
  hour :: nat
  minute :: nat
  second :: nat
  microsecond :: nat
  utcoffset :: int
  tzname :: string

fun decimal :: "nat \<Rightarrow> string" where
  "decimal n = (if n < 10 then [''0123456789'' ! n] else decimal (n div 10) @ [''0123456789'' ! (n mod 10)])"

declare decimal.simps [simp del]

definition zero_pad :: "nat \<Rightarrow> nat \<Rightarrow> string" where
  "zero_pad w n = replicate (w - length (decimal n)) (CHR ''0'') @ decimal n"

text \<open>
  Modelled from the spec: \<open>datetime.strftime\<close> is the standard library's. The directives this
  program uses are the year in four digits, month, day, hour, minute and second in two,
  the microsecond in six, all zero-padded, and the zone abbreviation; every other
  character of the format stands for itself.
\<close>

definition directive :: "datetime \<Rightarrow> char \<Rightarrow> string" where
  "directive dt c =
     (if c = CHR ''Y'' then zero_pad 4 (year dt)
      else if c = CHR ''m'' then zero_pad 2 (month dt)
      else if c = CHR ''d'' then zero_pad 2 (day dt)
      else if c = CHR ''H'' then zero_pad 2 (hour dt)
      else if c = CHR ''M'' then zero_pad 2 (minute dt)
      else if c = CHR ''S'' then zero_pad 2 (second dt)
      else if c = CHR ''f'' then zero_pad 6 (microsecond dt)
      else if c = CHR ''Z'' then tzname dt
      else if c = CHR ''%'' then ''%''
      else [CHR ''%'', c])"

fun strftime :: "datetime \<Rightarrow> string \<Rightarrow> string" where
  "strftime dt [] = []"
| "strftime dt [c] = [c]"
| "strftime dt (c # d # fmt) =
     (if c = CHR ''%'' then directive dt d @ strftime dt fmt else c # strftime dt (d # fmt))"

text \<open>\<open>str.split(sep)\<close> for a one-character separator.\<close>

fun split_sep :: "char \<Rightarrow> string \<Rightarrow> string list" where
  "split_sep sep [] = [[]]"
| "split_sep sep (c # cs) =
     (if c = sep then [] # split_sep sep cs
      else (case split_sep sep cs of [] \<Rightarrow> [[c]] | p # ps \<Rightarrow> (c # p) # ps))"

fun join_sep :: "string \<Rightarrow> string list \<Rightarrow> string" where
  "join_sep sep [] = []"
| "join_sep sep [p] = p"
| "join_sep sep (p # q # ps) = p @ sep @ join_sep sep (q # ps)"

text \<open>
  Modelled from the spec: \<open>pathlib.Path\<close> is the standard library's (POSIX flavour). A path is
  a root (empty for a relative path) and the names below it; parsing drops empty and
  \<open>.\<close> components, \<open>/\<close> appends a relative path and lets an absolute one replace the left
  operand.
\<close>

record path =
  root :: string
  names :: "string list"

definition Path :: "string \<Rightarrow> path" where
  "Path s =
     \<lparr>root = (if take 2 s = ''//'' \<and> take 3 s \<noteq> ''///'' then ''//''
              else if take 1 s = ''/'' then ''/'' else ''''),
      names = filter (\<lambda>p. p \<noteq> '''' \<and> p \<noteq> ''.'') (split_sep (CHR ''/'') s)\<rparr>"

definition joinpath :: "path \<Rightarrow> path \<Rightarrow> path" where
  "joinpath a b = (if root b \<noteq> '''' then b else \<lparr>root = root a, names = names a @ names b\<rparr>)"

definition path_str :: "path \<Rightarrow> string" where
  "path_str p = (if root p = '''' \<and> names p = [] then ''.'' else root p @ join_sep ''/'' (names p))"

section \<open>The libraries\<close>

text \<open>
  What the program calls and does not define is a parameter of the model:
  \<^item> \<open>process_text\<close>: markdownify's conversion of a text node;
  \<^item> \<open>base_convert\<close>: \<open>MarkdownConverter\<close>'s own \<open>convert_<name>\<close> method, \<open>None\<close> where it has none;
  \<^item> \<open>super_convert_img\<close>: \<open>MarkdownConverter.convert_img\<close>;
  \<^item> \<open>strptime\<close>: \<open>datetime.strptime\<close>, \<open>None\<close> where it raises \<open>ValueError\<close>;
  \<^item> \<open>astimezone\<close>: \<open>dt.astimezone(timezone(name))\<close> with pytz's zone of that name, taken
    as total (an instant within a day of the ends of the year range 1 to 9999 can overflow
    in Python; such instants are left out);
  \<^item> \<open>float\<close>: Python's \<open>float(s)\<close>, \<open>None\<close> where it raises \<open>ValueError\<close>; \<open>'f\<close> is the type of floats.
\<close>

record 'f library =
  process_text :: "place \<Rightarrow> string \<Rightarrow> string"
  base_convert :: "string \<Rightarrow> (place \<Rightarrow> tag \<Rightarrow> string \<Rightarrow> bool \<Rightarrow> string) option"
  super_convert_img :: "place \<Rightarrow> tag \<Rightarrow> string \<Rightarrow> bool \<Rightarrow> string"
  strptime :: "string \<Rightarrow> string \<Rightarrow> datetime option"
  astimezone :: "datetime \<Rightarrow> string \<Rightarrow> datetime"
  float :: "string \<Rightarrow> 'f option"

section \<open>EvernoteConverter\<close>

record EvernoteConverter =
  found_title :: string
  found_tags :: "string set"
  time_created :: string
  time_updated :: string
  latitide :: string
  longitude :: string
  altitude :: string
  photos :: "attr_value list"

definition init :: EvernoteConverter where
  "init = \<lparr>found_title = '''', found_tags = {}, time_created = '''', time_updated = '''',
           latitide = '''', longitude = '''', altitude = '''', photos = []\<rparr>"

text \<open>
  \<open>el.get(key)\<close> is \<open>None\<close> for a missing attribute, and \<open>isinstance(_, str)\<close> fails for
  \<open>None\<close> and for a list.
\<close>

definition convert_meta :: "EvernoteConverter \<Rightarrow> tag \<Rightarrow> string \<Rightarrow> bool \<Rightarrow> string \<times> EvernoteConverter" where
  "convert_meta self el text convert_as_inline =
     (case attrs el ''itemprop'' of
        Some (Str item_property) \<Rightarrow>
          (case attrs el ''content'' of
             Some (Str content) \<Rightarrow>
               ('''',
                if item_property = ''tag'' then self\<lparr>found_tags := insert content (found_tags self)\<rparr>
                else if item_property = ''title'' then self\<lparr>found_title := content\<rparr>
                else if item_property = ''created'' then self\<lparr>time_created := content\<rparr>
                else if item_property = ''updated'' then self\<lparr>time_updated := content\<rparr>
                else if item_property = ''latitude'' then self\<lparr>latitide := content\<rparr>
                else if item_property = ''longitude'' then self\<lparr>longitude := content\<rparr>
                else if item_property = ''altitude'' then self\<lparr>altitude := content\<rparr>
                else self)
           | _ \<Rightarrow> ('''', self))
      | _ \<Rightarrow> ('''', self))"

text \<open>\<open>el["class"]\<close> raises \<open>KeyError\<close> for a missing attribute; the handler catches it.\<close>

definition convert_div :: "EvernoteConverter \<Rightarrow> tag \<Rightarrow> string \<Rightarrow> bool \<Rightarrow> string \<times> EvernoteConverter" where
  "convert_div self el text convert_as_inline =
     (case attrs el ''class'' of
        None \<Rightarrow> ('''', self)
      | Some cls \<Rightarrow> if py_in ''para'' cls then (strip text @ [CHR 0x0A], self) else ('''', self))"

definition convert_img :: "'f library \<Rightarrow> place \<Rightarrow> EvernoteConverter \<Rightarrow> tag \<Rightarrow> string \<Rightarrow> bool \<Rightarrow> string \<times> EvernoteConverter" where
  "convert_img lib at self el text convert_as_inline =
     (let self' = (case attrs el ''src'' of
                     None \<Rightarrow> self
                   | Some src \<Rightarrow> self\<lparr>photos := photos self @ [src]\<rparr>)
      in (super_convert_img lib at el text convert_as_inline, self'))"

subsection \<open>The traversal\<close>

text \<open>
  \<open>MarkdownConverter.process_tag\<close>: the children are converted first, in document order,
  and their texts concatenated; comments and doctypes are skipped. Then the method
  \<open>convert_<name>\<close> is looked up on the converter, the three of \<open>EvernoteConverter\<close> before
  the library's, and, when there is one, its result replaces the text. The children of
  a heading or a table cell are converted as inline.
\<close>

definition is_heading :: "string \<Rightarrow> bool" where
  "is_heading nm = (case nm of h # d # _ \<Rightarrow> h = CHR ''h'' \<and> d \<in> set ''123456'' | _ \<Rightarrow> False)"

definition is_cell :: "string \<Rightarrow> bool" where
  "is_cell nm = (nm = ''td'' \<or> nm = ''th'')"

fun process_tag :: "'f library \<Rightarrow> soup \<Rightarrow> nat list \<Rightarrow> tag \<Rightarrow> bool \<Rightarrow> EvernoteConverter \<Rightarrow> string \<times> EvernoteConverter"
and process_children :: "'f library \<Rightarrow> soup \<Rightarrow> nat list \<Rightarrow> nat \<Rightarrow> node list \<Rightarrow> bool \<Rightarrow> EvernoteConverter \<Rightarrow> string \<times> EvernoteConverter"
where
  "process_tag lib doc at (Tag nm atts children) convert_as_inline self =
     (case process_children lib doc at 0 children
             (convert_as_inline \<or> is_heading nm \<or> is_cell nm) self of
        (text, self') \<Rightarrow>
          if nm = ''meta'' then convert_meta self' (Tag nm atts children) text convert_as_inline
          else if nm = ''div'' then convert_div self' (Tag nm atts children) text convert_as_inline
          else if nm = ''img'' then convert_img lib (doc, at) self' (Tag nm atts children) text convert_as_inline
          else (case base_convert lib nm of
                  None \<Rightarrow> (text, self')
                | Some convert_fn \<Rightarrow> (convert_fn (doc, at) (Tag nm atts children) text convert_as_inline, self')))"
| "process_children lib doc at i [] convert_as_inline self = ('''', self)"
| "process_children lib doc at i (Comment c # rest) convert_as_inline self =
     process_children lib doc at (Suc i) rest convert_as_inline self"
| "process_children lib doc at i (Doctype c # rest) convert_as_inline self =
     process_children lib doc at (Suc i) rest convert_as_inline self"
| "process_children lib doc at i (NavigableString s # rest) convert_as_inline self =
     (case process_children lib doc at (Suc i) rest convert_as_inline self of
        (text, self') \<Rightarrow> (process_text lib (doc, at @ [i]) s @ text, self'))"
| "process_children lib doc at i (Element el # rest) convert_as_inline self =
     (case process_tag lib doc (at @ [i]) el convert_as_inline self of
        (text, self') \<Rightarrow>
          (case process_children lib doc at (Suc i) rest convert_as_inline self' of
             (text', self'') \<Rightarrow> (text @ text', self'')))"

text \<open>\<open>convert(html)\<close>: the children of the document root, not inline.\<close>

definition convert :: "'f library \<Rightarrow> EvernoteConverter \<Rightarrow> soup \<Rightarrow> string \<times> EvernoteConverter" where
  "convert lib self html = process_children lib html [] 0 html False self"

section \<open>EvernoteEntry\<close>

definition TIMEZONE :: string where
  "TIMEZONE = ''Europe/London''"

record 'f EvernoteEntry =
  title :: string
  "text" :: string
  tags :: "string set"
  time_created :: datetime
  time_updated :: datetime
  latitude :: "'f option"
  longitude :: "'f option"
  altitude :: "'f option"
  photos :: "attr_value list"

text \<open>
  Both \<open>strptime\<close> and \<open>float\<close> raise \<open>ValueError\<close>; the two errors are told apart by the
  call that raised.
\<close>

datatype error = TimestampParseError | NumericParseError

text \<open>\<open>float(s) if s else None\<close>: the empty string is false.\<close>

definition float_if :: "'f library \<Rightarrow> string \<Rightarrow> error + 'f option" where
  "float_if lib s =
     (if s \<noteq> '''' then (case float lib s of None \<Rightarrow> Inl NumericParseError | Some v \<Rightarrow> Inr (Some v))
      else Inr None)"

text \<open>
  The arguments of the constructor are evaluated from left to right, so the first call
  that raises decides the error. The document is given as parsed.
\<close>

definition from_html :: "'f library \<Rightarrow> soup \<Rightarrow> error + 'f EvernoteEntry" where
  "from_html lib html =
     (case convert lib init html of
        (converted, data_parser) \<Rightarrow>
     (case strptime lib (EvernoteConverter.time_created data_parser) ''%Y%m%dT%H%M%S%z'' of
        None \<Rightarrow> Inl TimestampParseError
      | Some created \<Rightarrow>
     (case strptime lib (EvernoteConverter.time_updated data_parser) ''%Y%m%dT%H%M%S%z'' of
        None \<Rightarrow> Inl TimestampParseError
      | Some updated \<Rightarrow>
     (case float_if lib (latitide data_parser) of
        Inl e \<Rightarrow> Inl e
      | Inr lat \<Rightarrow>
     (case float_if lib (EvernoteConverter.longitude data_parser) of
        Inl e \<Rightarrow> Inl e
      | Inr lon \<Rightarrow>
     (case float_if lib (EvernoteConverter.altitude data_parser) of
        Inl e \<Rightarrow> Inl e
      | Inr alt \<Rightarrow>
          Inr \<lparr>title = found_title data_parser,
               text = strip converted,
               tags = found_tags data_parser,
               time_created = astimezone lib created TIMEZONE,
               time_updated = astimezone lib updated TIMEZONE,
               latitude = lat, longitude = lon, altitude = alt,
               photos = EvernoteConverter.photos data_parser\<rparr>))))))"

definition markdown_directory :: "'f EvernoteEntry \<Rightarrow> path" where
  "markdown_directory self = Path (strftime (time_created self) ''%Y/%m/%d/'')"

definition markdown_attachment_directory :: "'f EvernoteEntry \<Rightarrow> path" where
  "markdown_attachment_directory self = joinpath (markdown_directory self) (Path ''attachments'')"

definition markdown_file :: "'f EvernoteEntry \<Rightarrow> path" where
  "markdown_file self =
     joinpath (markdown_directory self)
       (Path (strftime (time_created self) ''%Y-%m-%d-%H-%M-%S-%f-%Z.md''))"

section \<open>What a document holds\<close>

text \<open>
  A metadata marker is a \<open>meta\<close> element whose \<open>itemprop\<close> and \<open>content\<close> attributes are
  both strings; \<open>marker\<close> gives the pair of a marker. \<open>markers\<close> lists the pairs of a
  document in the order in which the traversal reaches the handler of each element: the
  children of an element before the element itself.
\<close>

definition marker :: "tag \<Rightarrow> (string \<times> string) option" where
  "marker el =
     (if name el = ''meta'' then
        (case attrs el ''itemprop'' of
           Some (Str p) \<Rightarrow> (case attrs el ''content'' of Some (Str c) \<Rightarrow> Some (p, c) | _ \<Rightarrow> None)
         | _ \<Rightarrow> None)
      else None)"

fun markers_tag :: "tag \<Rightarrow> (string \<times> string) list"
and markers :: "node list \<Rightarrow> (string \<times> string) list"
where
  "markers_tag (Tag nm atts children) =
     markers children @ (case marker (Tag nm atts children) of None \<Rightarrow> [] | Some m \<Rightarrow> [m])"
| "markers [] = []"
| "markers (Element el # rest) = markers_tag el @ markers rest"
| "markers (NavigableString s # rest) = markers rest"
| "markers (Comment c # rest) = markers rest"
| "markers (Doctype c # rest) = markers rest"

text \<open>The values of the markers with property \<open>k\<close>, in that order.\<close>

definition values_of :: "string \<Rightarrow> node list \<Rightarrow> string list" where
  "values_of k doc = map snd (filter (\<lambda>m. fst m = k) (markers doc))"

text \<open>The \<open>src\<close> values of the image elements, in the same order.\<close>

fun sources_tag :: "tag \<Rightarrow> attr_value list"
and sources :: "node list \<Rightarrow> attr_value list"
where
  "sources_tag (Tag nm atts children) =
     sources children @ (if nm = ''img'' then (case atts ''src'' of None \<Rightarrow> [] | Some v \<Rightarrow> [v]) else [])"
| "sources [] = []"
| "sources (Element el # rest) = sources_tag el @ sources rest"
| "sources (NavigableString s # rest) = sources rest"
| "sources (Comment c # rest) = sources rest"
| "sources (Doctype c # rest) = sources rest"

text \<open>An element carries the paragraph marker when \<open>para\<close> is in its \<open>class\<close> attribute.\<close>

definition is_para :: "tag \<Rightarrow> bool" where
  "is_para el = (case attrs el ''class'' of None \<Rightarrow> False | Some cls \<Rightarrow> py_in ''para'' cls)"

text \<open>A paragraph-marked container somewhere in the document.\<close>

fun has_para_tag :: "tag \<Rightarrow> bool"
and has_para :: "node list \<Rightarrow> bool"
where
  "has_para_tag (Tag nm atts children) =
     ((nm = ''div'' \<and> is_para (Tag nm atts children)) \<or> has_para children)"
| "has_para [] = False"
| "has_para (Element el # rest) = (has_para_tag el \<or> has_para rest)"
| "has_para (NavigableString s # rest) = has_para rest"
| "has_para (Comment c # rest) = has_para rest"
| "has_para (Doctype c # rest) = has_para rest"

text \<open>
  Nothing but white space outside the \<open>div\<close> elements: outside them the document has only
  metadata markers, comments, doctypes, text nodes that the library converts to white
  space, and elements for which the converter has no method (such as \<open>html\<close> or \<open>body\<close>)
  around such content.
\<close>

fun blank_outside_tag :: "'f library \<Rightarrow> soup \<Rightarrow> nat list \<Rightarrow> tag \<Rightarrow> bool"
and blank_outside :: "'f library \<Rightarrow> soup \<Rightarrow> nat list \<Rightarrow> nat \<Rightarrow> node list \<Rightarrow> bool"
where
  "blank_outside_tag lib doc at (Tag nm atts children) =
     (nm = ''meta'' \<or> nm = ''div'' \<or>
      (nm \<noteq> ''img'' \<and> base_convert lib nm = None \<and> blank_outside lib doc at 0 children))"
| "blank_outside lib doc at i [] = True"
| "blank_outside lib doc at i (Comment c # rest) = blank_outside lib doc at (Suc i) rest"
| "blank_outside lib doc at i (Doctype c # rest) = blank_outside lib doc at (Suc i) rest"
| "blank_outside lib doc at i (NavigableString s # rest) =
     (list_all isspace (process_text lib (doc, at @ [i]) s) \<and> blank_outside lib doc at (Suc i) rest)"
| "blank_outside lib doc at i (Element el # rest) =
     (blank_outside_tag lib doc (at @ [i]) el \<and> blank_outside lib doc at (Suc i) rest)"

section \<open>A sample of the libraries\<close>

text \<open>
  One value of the library parameters, for the worked examples. On the documents of the
  examples it gives the results of the real libraries, and it makes no claim beyond them:
  \<^item> a text node of plain words converts to itself;
  \<^item> the elements of the examples other than \<open>img\<close> (\<open>html\<close>, \<open>body\<close>, \<open>span\<close>) have no method in markdownify;
  \<^item> an image converts to \<open>![alt](src)\<close>, or to its \<open>alt\<close> text when inline;
  \<^item> \<open>strptime\<close> reads the canonical twenty characters \<open>YYYYMMDDTHHMMSS+HHMM\<close>;
  \<^item> \<open>astimezone\<close> is right where London is on GMT and the instant is given at offset zero:
    the fields stay and the abbreviation becomes \<open>GMT\<close>;
  \<^item> \<open>float\<close> reads strings of decimal digits, with the integer as the float.
\<close>

definition is_digit :: "char \<Rightarrow> bool" where
  "is_digit c = (c \<in> set ''0123456789'')"

definition number :: "string \<Rightarrow> nat" where
  "number s = foldl (\<lambda>n c. 10 * n + (of_char c - 48)) 0 s"

definition days_in_month :: "nat \<Rightarrow> nat \<Rightarrow> nat" where
  "days_in_month y m =
     (if m = 2 then (if y mod 4 = 0 \<and> (y mod 100 \<noteq> 0 \<or> y mod 400 = 0) then 29 else 28)
      else if m = 4 \<or> m = 6 \<or> m = 9 \<or> m = 11 then 30 else 31)"

definition sample_strptime :: "string \<Rightarrow> string \<Rightarrow> datetime option" where
  "sample_strptime s fmt =
     (if fmt = ''%Y%m%dT%H%M%S%z'' \<and> length s = 20 \<and> s ! 8 = CHR ''T''
         \<and> (s ! 15 = CHR ''+'' \<or> s ! 15 = CHR ''-'')
         \<and> list_all is_digit (take 8 s @ take 6 (drop 9 s) @ drop 16 s)
      then
        (let y = number (take 4 s); mo = number (take 2 (drop 4 s)); d = number (take 2 (drop 6 s));
             h = number (take 2 (drop 9 s)); mi = number (take 2 (drop 11 s));
             sec = number (take 2 (drop 13 s));
             oh = number (take 2 (drop 16 s)); om = number (take 2 (drop 18 s));
             off = int (oh * 3600 + om * 60)
         in if 1 \<le> y \<and> 1 \<le> mo \<and> mo \<le> 12 \<and> 1 \<le> d \<and> d \<le> days_in_month y mo
               \<and> h < 24 \<and> mi < 60 \<and> sec < 60 \<and> om < 60
            then Some \<lparr>year = y, month = mo, day = d, hour = h, minute = mi, second = sec,
                       microsecond = 0,
                       utcoffset = (if s ! 15 = CHR ''-'' then - off else off),
                       tzname = (if off = 0 then ''UTC''
                                 else ''UTC'' @ [s ! 15] @ take 2 (drop 16 s) @ '':'' @ take 2 (drop 18 s))\<rparr>
            else None)
      else None)"

definition sample_astimezone :: "datetime \<Rightarrow> string \<Rightarrow> datetime" where
  "sample_astimezone dt zone = dt\<lparr>utcoffset := 0, tzname := ''GMT''\<rparr>"

definition sample_float :: "string \<Rightarrow> int option" where
  "sample_float s = (if s \<noteq> '''' \<and> list_all is_digit s then Some (int (number s)) else None)"

definition sample_convert_img :: "place \<Rightarrow> tag \<Rightarrow> string \<Rightarrow> bool \<Rightarrow> string" where
  "sample_convert_img at el txt convert_as_inline =
     (let alt = (case attrs el ''alt'' of Some (Str a) \<Rightarrow> a | _ \<Rightarrow> '''');
          src = (case attrs el ''src'' of Some (Str a) \<Rightarrow> a | _ \<Rightarrow> '''')
      in if convert_as_inline then alt else ''!['' @ alt @ '']('' @ src @ '')'')"

definition sample_library :: "int library" where
  "sample_library =
     \<lparr>process_text = (\<lambda>at s. s),
      base_convert = (\<lambda>nm. None),
      super_convert_img = sample_convert_img,
      strptime = sample_strptime,
      astimezone = sample_astimezone,
      float = sample_float\<rparr>"

text \<open>A metadata marker \<open><meta itemprop=p content=c>\<close>, and a \<open>div\<close> with one class.\<close>

definition meta :: "string \<Rightarrow> string \<Rightarrow> node" where
  "meta p c = Element (Tag ''meta'' [''itemprop'' \<mapsto> Str p, ''content'' \<mapsto> Str c] [])"

definition div_class :: "string \<Rightarrow> node list \<Rightarrow> node" where
  "div_class cls children = Element (Tag ''div'' [''class'' \<mapsto> Multi [cls]] children)"

text \<open>
  The two instants of the examples, 15 January 2023 09:30:00 and 16 January 2023 10:15:00
  GMT; a document that carries them as its created and updated markers, before the
  given nodes; and the Entry of such a document with nothing else in it.
\<close>

definition jan15 :: datetime where
  "jan15 = \<lparr>year = 2023, month = 1, day = 15, hour = 9, minute = 30, second = 0,
             microsecond = 0, utcoffset = 0, tzname = ''GMT''\<rparr>"

definition jan16 :: datetime where
  "jan16 = \<lparr>year = 2023, month = 1, day = 16, hour = 10, minute = 15, second = 0,
             microsecond = 0, utcoffset = 0, tzname = ''GMT''\<rparr>"

definition stamped :: "node list \<Rightarrow> soup" where
  "stamped nodes =
     meta ''created'' ''20230115T093000+0000'' # meta ''updated'' ''20230116T101500+0000'' # nodes"

definition plain_entry :: "int EvernoteEntry" where
  "plain_entry = \<lparr>title = '''', text = '''', tags = {}, time_created = jan15, time_updated = jan16,
                   latitude = None, longitude = None, altitude = None, photos = []\<rparr>"

section \<open>Auxiliary notions\<close>

text \<open>
  The two locals of \<open>from_html\<close>: the converter after the traversal of the document, and
  the stripped text.
\<close>

definition data_parser :: "'f library \<Rightarrow> soup \<Rightarrow> EvernoteConverter" where
  "data_parser lib html = snd (convert lib init html)"

definition markdown :: "'f library \<Rightarrow> soup \<Rightarrow> string" where
  "markdown lib html = strip (fst (convert lib init html))"

text \<open>What the metadata handler does to the converter at a marker with the pair \<open>m\<close>.\<close>

definition record_marker :: "EvernoteConverter \<Rightarrow> string \<times> string \<Rightarrow> EvernoteConverter" where
  "record_marker self m =
     snd (convert_meta self (Tag ''meta'' [''itemprop'' \<mapsto> Str (fst m), ''content'' \<mapsto> Str (snd m)] []) '''' False)"

section \<open>Lemmas\<close>

lemma record_marker_eq:
  "record_marker self (p, c) =
     (if p = ''tag'' then self\<lparr>found_tags := insert c (found_tags self)\<rparr>
      else if p = ''title'' then self\<lparr>found_title := c\<rparr>
      else if p = ''created'' then self\<lparr>EvernoteConverter.time_created := c\<rparr>
      else if p = ''updated'' then self\<lparr>EvernoteConverter.time_updated := c\<rparr>
      else if p = ''latitude'' then self\<lparr>latitide := c\<rparr>
      else if p = ''longitude'' then self\<lparr>EvernoteConverter.longitude := c\<rparr>
      else if p = ''altitude'' then self\<lparr>EvernoteConverter.altitude := c\<rparr>
      else self)"
  unfolding record_marker_def convert_meta_def by simp

lemma convert_meta_marker:
  "convert_meta self el txt inl = ('''', case marker (Tag ''meta'' (attrs el) cs) of None \<Rightarrow> self | Some m \<Rightarrow> record_marker self m)"
  unfolding convert_meta_def marker_def
  by (simp add: record_marker_eq split: option.splits attr_value.splits)

lemma photos_record_marker [simp]:
  "EvernoteConverter.photos (record_marker self m) = EvernoteConverter.photos self"
  by (cases m) (simp add: record_marker_eq)

lemma record_marker_photos [simp]:
  "record_marker (self\<lparr>EvernoteConverter.photos := ps\<rparr>) m = (record_marker self m)\<lparr>EvernoteConverter.photos := ps\<rparr>"
  by (cases m) (simp add: record_marker_eq)

lemma photos_foldl_record [simp]:
  "EvernoteConverter.photos (foldl record_marker self ms) = EvernoteConverter.photos self"
  by (induction ms arbitrary: self) simp_all

lemma foldl_record_photos [simp]:
  "foldl record_marker (self\<lparr>EvernoteConverter.photos := ps\<rparr>) ms = (foldl record_marker self ms)\<lparr>EvernoteConverter.photos := ps\<rparr>"
  by (induction ms arbitrary: self) simp_all

lemma process_tag_state:
  assumes ch: "process_children lib doc at 0 children (inl \<or> is_heading nm \<or> is_cell nm) self = (t, s')"
  shows "snd (process_tag lib doc at (Tag nm atts children) inl self) =
         (foldl record_marker s' (case marker (Tag nm atts children) of None \<Rightarrow> [] | Some m \<Rightarrow> [m]))
           \<lparr>EvernoteConverter.photos := EvernoteConverter.photos s' @ (if nm = ''img'' then (case atts ''src'' of None \<Rightarrow> [] | Some v \<Rightarrow> [v]) else [])\<rparr>"
proof -
  consider (meta) "nm = ''meta''" | (div) "nm = ''div''" | (img) "nm = ''img''"
    | (other) "nm \<noteq> ''meta''" "nm \<noteq> ''div''" "nm \<noteq> ''img''" by blast
  then show ?thesis
  proof cases
    case meta
    then show ?thesis
      using ch by (simp add: convert_meta_marker[where cs=children] split: option.splits)
  next
    case div
    then show ?thesis
      using ch by (simp add: convert_div_def marker_def split: option.splits)
  next
    case img
    then show ?thesis
      using ch by (simp add: convert_img_def marker_def split: option.splits)
  next
    case other
    then show ?thesis
      using ch by (simp add: marker_def split: option.splits)
  qed
qed

lemma traversal_state:
  "snd (process_tag lib doc at el inl self) =
     (foldl record_marker self (markers_tag el))\<lparr>EvernoteConverter.photos := EvernoteConverter.photos self @ sources_tag el\<rparr>"
  "snd (process_children lib doc at i ns inl self) =
     (foldl record_marker self (markers ns))\<lparr>EvernoteConverter.photos := EvernoteConverter.photos self @ sources ns\<rparr>"
proof (induction lib doc at el inl self and lib doc at i ns inl self rule: process_tag_process_children.induct)
  case (1 lib doc at nm atts children inl self)
  obtain t s' where ch: "process_children lib doc at 0 children (inl \<or> is_heading nm \<or> is_cell nm) self = (t, s')"
    by fastforce
  have s': "s' = (foldl record_marker self (markers children))\<lparr>EvernoteConverter.photos := EvernoteConverter.photos self @ sources children\<rparr>"
    using "1.IH" ch by simp
  show ?case
    unfolding process_tag_state[OF ch] by (simp add: s' split: option.splits)
next
  case (2 lib doc at i inl self)
  then show ?case by simp
next
  case (3 lib doc at i c rest inl self)
  then show ?case by simp
next
  case (4 lib doc at i c rest inl self)
  then show ?case by simp
next
  case (5 lib doc at i s rest inl self)
  then show ?case by (auto split: prod.splits)
next
  case (6 lib doc at i el rest inl self)
  obtain t s1 where a: "process_tag lib doc (at @ [i]) el inl self = (t, s1)" by fastforce
  obtain t' s2 where b: "process_children lib doc at (Suc i) rest inl s1 = (t', s2)" by fastforce
  have r: "snd (process_children lib doc at i (Element el # rest) inl self) = s2"
    by (simp add: a b)
  have e1: "s1 = (foldl record_marker self (markers_tag el))\<lparr>EvernoteConverter.photos := EvernoteConverter.photos self @ sources_tag el\<rparr>"
    using "6.IH"(1) a by simp
  have e2: "s2 = (foldl record_marker s1 (markers rest))\<lparr>EvernoteConverter.photos := EvernoteConverter.photos s1 @ sources rest\<rparr>"
    using "6.IH"(2)[OF a[symmetric]] b by simp
  show ?case unfolding r e2 e1 by simp
qed

lemma foldl_record_snoc:
  "foldl record_marker self (ms @ [(p, c)]) = record_marker (foldl record_marker self ms) (p, c)"
  by simp

lemma found_tags_foldl:
  "found_tags (foldl record_marker self ms) =
     found_tags self \<union> set (map snd (filter (\<lambda>m. fst m = ''tag'') ms))"
proof (induction ms rule: rev_induct)
  case Nil
  then show ?case by simp
next
  case (snoc m ms)
  obtain p c where m: "m = (p, c)" by (cases m)
  show ?case unfolding m foldl_record_snoc using snoc
    by (simp add: record_marker_eq)
qed

lemma found_title_foldl:
  "found_title (foldl record_marker self ms) =
     (let vs = map snd (filter (\<lambda>m. fst m = ''title'') ms) in if vs = [] then found_title self else last vs)"
proof (induction ms rule: rev_induct)
  case Nil
  then show ?case by simp
next
  case (snoc m ms)
  obtain p c where m: "m = (p, c)" by (cases m)
  show ?case unfolding m foldl_record_snoc using snoc
    by (simp add: record_marker_eq Let_def)
qed

lemma time_created_foldl:
  "EvernoteConverter.time_created (foldl record_marker self ms) =
     (let vs = map snd (filter (\<lambda>m. fst m = ''created'') ms) in if vs = [] then EvernoteConverter.time_created self else last vs)"
proof (induction ms rule: rev_induct)
  case Nil
  then show ?case by simp
next
  case (snoc m ms)
  obtain p c where m: "m = (p, c)" by (cases m)
  show ?case unfolding m foldl_record_snoc using snoc
    by (simp add: record_marker_eq Let_def)
qed

lemma time_updated_foldl:
  "EvernoteConverter.time_updated (foldl record_marker self ms) =
     (let vs = map snd (filter (\<lambda>m. fst m = ''updated'') ms) in if vs = [] then EvernoteConverter.time_updated self else last vs)"
proof (induction ms rule: rev_induct)
  case Nil
  then show ?case by simp
next
  case (snoc m ms)
  obtain p c where m: "m = (p, c)" by (cases m)
  show ?case unfolding m foldl_record_snoc using snoc
    by (simp add: record_marker_eq Let_def)
qed

lemma latitide_foldl:
  "latitide (foldl record_marker self ms) =
     (let vs = map snd (filter (\<lambda>m. fst m = ''latitude'') ms) in if vs = [] then latitide self else last vs)"
proof (induction ms rule: rev_induct)
  case Nil
  then show ?case by simp
next
  case (snoc m ms)
  obtain p c where m: "m = (p, c)" by (cases m)
  show ?case unfolding m foldl_record_snoc using snoc
    by (simp add: record_marker_eq Let_def)
qed

lemma longitude_foldl:
  "EvernoteConverter.longitude (foldl record_marker self ms) =
     (let vs = map snd (filter (\<lambda>m. fst m = ''longitude'') ms) in if vs = [] then EvernoteConverter.longitude self else last vs)"
proof (induction ms rule: rev_induct)
  case Nil
  then show ?case by simp
next
  case (snoc m ms)
  obtain p c where m: "m = (p, c)" by (cases m)
  show ?case unfolding m foldl_record_snoc using snoc
    by (simp add: record_marker_eq Let_def)
qed

lemma altitude_foldl:
  "EvernoteConverter.altitude (foldl record_marker self ms) =
     (let vs = map snd (filter (\<lambda>m. fst m = ''altitude'') ms) in if vs = [] then EvernoteConverter.altitude self else last vs)"
proof (induction ms rule: rev_induct)
  case Nil
  then show ?case by simp
next
  case (snoc m ms)
  obtain p c where m: "m = (p, c)" by (cases m)
  show ?case unfolding m foldl_record_snoc using snoc
    by (simp add: record_marker_eq Let_def)
qed

lemma data_parser_eq:
  "data_parser lib doc = (foldl record_marker init (markers doc))\<lparr>EvernoteConverter.photos := sources doc\<rparr>"
  unfolding data_parser_def convert_def traversal_state(2) by (simp add: init_def)

lemma data_parser_fields:
  "found_tags (data_parser lib doc) = set (values_of ''tag'' doc)"
  "found_title (data_parser lib doc) = (if values_of ''title'' doc = [] then '''' else last (values_of ''title'' doc))"
  "EvernoteConverter.time_created (data_parser lib doc) = (if values_of ''created'' doc = [] then '''' else last (values_of ''created'' doc))"
  "EvernoteConverter.time_updated (data_parser lib doc) = (if values_of ''updated'' doc = [] then '''' else last (values_of ''updated'' doc))"
  "latitide (data_parser lib doc) = (if values_of ''latitude'' doc = [] then '''' else last (values_of ''latitude'' doc))"
  "EvernoteConverter.longitude (data_parser lib doc) = (if values_of ''longitude'' doc = [] then '''' else last (values_of ''longitude'' doc))"
  "EvernoteConverter.altitude (data_parser lib doc) = (if values_of ''altitude'' doc = [] then '''' else last (values_of ''altitude'' doc))"
  "EvernoteConverter.photos (data_parser lib doc) = sources doc"
  unfolding data_parser_eq values_of_def
  by (simp_all add: found_tags_foldl found_title_foldl time_created_foldl time_updated_foldl
        latitide_foldl longitude_foldl altitude_foldl Let_def init_def)

lemma from_html_eq:
  "from_html lib html =
     (case strptime lib (EvernoteConverter.time_created (data_parser lib html)) ''%Y%m%dT%H%M%S%z'' of
        None \<Rightarrow> Inl TimestampParseError
      | Some created \<Rightarrow>
     (case strptime lib (EvernoteConverter.time_updated (data_parser lib html)) ''%Y%m%dT%H%M%S%z'' of
        None \<Rightarrow> Inl TimestampParseError
      | Some updated \<Rightarrow>
     (case float_if lib (latitide (data_parser lib html)) of
        Inl e \<Rightarrow> Inl e
      | Inr lat \<Rightarrow>
     (case float_if lib (EvernoteConverter.longitude (data_parser lib html)) of
        Inl e \<Rightarrow> Inl e
      | Inr lon \<Rightarrow>
     (case float_if lib (EvernoteConverter.altitude (data_parser lib html)) of
        Inl e \<Rightarrow> Inl e
      | Inr alt \<Rightarrow>
          Inr \<lparr>title = found_title (data_parser lib html),
               text = markdown lib html,
               tags = found_tags (data_parser lib html),
               time_created = astimezone lib created TIMEZONE,
               time_updated = astimezone lib updated TIMEZONE,
               latitude = lat, longitude = lon, altitude = alt,
               photos = EvernoteConverter.photos (data_parser lib html)\<rparr>)))))"
  unfolding from_html_def data_parser_def markdown_def
  by (cases "convert lib init html") (simp cong: option.case_cong sum.case_cong)



lemma from_html_Inr:
  "from_html lib html = Inr e \<longleftrightarrow>
     (\<exists>c u lat lon alt.
        strptime lib (EvernoteConverter.time_created (data_parser lib html)) ''%Y%m%dT%H%M%S%z'' = Some c
      \<and> strptime lib (EvernoteConverter.time_updated (data_parser lib html)) ''%Y%m%dT%H%M%S%z'' = Some u
      \<and> float_if lib (latitide (data_parser lib html)) = Inr lat
      \<and> float_if lib (EvernoteConverter.longitude (data_parser lib html)) = Inr lon
      \<and> float_if lib (EvernoteConverter.altitude (data_parser lib html)) = Inr alt
      \<and> e = \<lparr>title = found_title (data_parser lib html),
               text = markdown lib html,
               tags = found_tags (data_parser lib html),
               time_created = astimezone lib c TIMEZONE,
               time_updated = astimezone lib u TIMEZONE,
               latitude = lat, longitude = lon, altitude = alt,
               photos = EvernoteConverter.photos (data_parser lib html)\<rparr>)"
  unfolding from_html_eq
  by (auto split: option.splits sum.splits)

lemma from_html_fields:
  assumes "from_html lib html = Inr e"
  shows "title e = found_title (data_parser lib html)"
    and "text e = markdown lib html"
    and "tags e = found_tags (data_parser lib html)"
    and "photos e = EvernoteConverter.photos (data_parser lib html)"
    and "\<exists>c. strptime lib (EvernoteConverter.time_created (data_parser lib html)) ''%Y%m%dT%H%M%S%z'' = Some c
            \<and> time_created e = astimezone lib c TIMEZONE"
    and "\<exists>u. strptime lib (EvernoteConverter.time_updated (data_parser lib html)) ''%Y%m%dT%H%M%S%z'' = Some u
            \<and> time_updated e = astimezone lib u TIMEZONE"
    and "float_if lib (latitide (data_parser lib html)) = Inr (latitude e)"
    and "float_if lib (EvernoteConverter.longitude (data_parser lib html)) = Inr (longitude e)"
    and "float_if lib (EvernoteConverter.altitude (data_parser lib html)) = Inr (altitude e)"
proof -
  from assms obtain c u lat lon alt where
    h: "strptime lib (EvernoteConverter.time_created (data_parser lib html)) ''%Y%m%dT%H%M%S%z'' = Some c"
       "strptime lib (EvernoteConverter.time_updated (data_parser lib html)) ''%Y%m%dT%H%M%S%z'' = Some u"
       "float_if lib (latitide (data_parser lib html)) = Inr lat"
       "float_if lib (EvernoteConverter.longitude (data_parser lib html)) = Inr lon"
       "float_if lib (EvernoteConverter.altitude (data_parser lib html)) = Inr alt"
    and e: "e = \<lparr>title = found_title (data_parser lib html),
               text = markdown lib html,
               tags = found_tags (data_parser lib html),
               time_created = astimezone lib c TIMEZONE,
               time_updated = astimezone lib u TIMEZONE,
               latitude = lat, longitude = lon, altitude = alt,
               photos = EvernoteConverter.photos (data_parser lib html)\<rparr>"
    unfolding from_html_Inr by blast
  show "title e = found_title (data_parser lib html)" by (simp add: e)
  show "text e = markdown lib html" by (simp add: e)
  show "tags e = found_tags (data_parser lib html)" by (simp add: e)
  show "photos e = EvernoteConverter.photos (data_parser lib html)" by (simp add: e)
  show "\<exists>c. strptime lib (EvernoteConverter.time_created (data_parser lib html)) ''%Y%m%dT%H%M%S%z'' = Some c
            \<and> time_created e = astimezone lib c TIMEZONE" using h(1) by (simp add: e)
  show "\<exists>u. strptime lib (EvernoteConverter.time_updated (data_parser lib html)) ''%Y%m%dT%H%M%S%z'' = Some u
            \<and> time_updated e = astimezone lib u TIMEZONE" using h(2) by (simp add: e)
  show "float_if lib (latitide (data_parser lib html)) = Inr (latitude e)" using h(3) by (simp add: e)
  show "float_if lib (EvernoteConverter.longitude (data_parser lib html)) = Inr (longitude e)" using h(4) by (simp add: e)
  show "float_if lib (EvernoteConverter.altitude (data_parser lib html)) = Inr (altitude e)" using h(5) by (simp add: e)
qed

lemma strip_blank: "list_all isspace s \<Longrightarrow> strip s = []"
proof -
  assume "list_all isspace s"
  then have d: "dropWhile isspace s = []" by (simp add: list_all_iff)
  show ?thesis unfolding strip_def d by simp
qed

lemma not_heading_div [simp]: "\<not> is_heading ''div''" "\<not> is_cell ''div''"
  "\<not> is_heading ''meta''" "\<not> is_cell ''meta''"
  by (simp_all add: is_heading_def is_cell_def)

lemma process_tag_div:
  "process_tag lib doc at (Tag ''div'' atts children) inl self =
     (case process_children lib doc at 0 children inl self of
        (t, s') \<Rightarrow> (if is_para (Tag ''div'' atts children) then strip t @ [CHR 0x0A] else '''', s'))"
  by (simp add: convert_div_def is_para_def split: prod.splits option.splits)

lemma process_tag_meta_text:
  "fst (process_tag lib doc at (Tag ''meta'' atts children) inl self) = ''''"
  by (simp add: convert_meta_marker[where cs=children] split: prod.splits)

lemma blank_text:
  "\<not> has_para_tag el \<Longrightarrow> blank_outside_tag lib doc at el \<Longrightarrow>
     list_all isspace (fst (process_tag lib doc at el inl self))"
  "\<not> has_para ns \<Longrightarrow> blank_outside lib doc at i ns \<Longrightarrow>
     list_all isspace (fst (process_children lib doc at i ns inl self))"
proof (induction lib doc at el inl self and lib doc at i ns inl self rule: process_tag_process_children.induct)
  case (1 lib doc at nm atts children inl self)
  consider (meta) "nm = ''meta''" | (div) "nm = ''div''"
    | (other) "nm \<noteq> ''meta''" "nm \<noteq> ''div''" by blast
  then show ?case
  proof cases
    case meta
    show ?thesis unfolding meta process_tag_meta_text by simp
  next
    case div
    with "1.prems" have "\<not> is_para (Tag ''div'' atts children)" by simp
    then show ?thesis unfolding div process_tag_div by (simp split: prod.splits)
  next
    case other
    with "1.prems" have b: "nm \<noteq> ''img''" "base_convert lib nm = None" "blank_outside lib doc at 0 children"
      and p: "\<not> has_para children" by simp_all
    have "list_all isspace (fst (process_children lib doc at 0 children (inl \<or> is_heading nm \<or> is_cell nm) self))"
      using "1.IH" p b(3) by simp
    then show ?thesis using other b by (simp split: prod.splits)
  qed
next
  case (2 lib doc at i inl self)
  then show ?case by simp
next
  case (3 lib doc at i c rest inl self)
  then show ?case by simp
next
  case (4 lib doc at i c rest inl self)
  then show ?case by simp
next
  case (5 lib doc at i s rest inl self)
  then show ?case by (auto split: prod.splits)
next
  case (6 lib doc at i el rest inl self)
  obtain t s1 where a: "process_tag lib doc (at @ [i]) el inl self = (t, s1)" by fastforce
  obtain t' s2 where b: "process_children lib doc at (Suc i) rest inl s1 = (t', s2)" by fastforce
  have "list_all isspace t" using "6.IH"(1) "6.prems" a by simp
  moreover have "list_all isspace t'" using "6.IH"(2)[OF a[symmetric]] "6.prems" b by simp
  ultimately show ?case by (simp add: a b)
qed

lemma markdown_blank:
  "\<not> has_para html \<Longrightarrow> blank_outside lib html [] 0 html \<Longrightarrow> markdown lib html = ''''"
  unfolding markdown_def convert_def by (rule strip_blank) (rule blank_text(2))

lemma digit_nth: "k < 10 \<Longrightarrow> ''0123456789'' ! k \<in> set ''0123456789''"
  by (rule nth_mem) simp

lemma decimal_digits: "set (decimal n) \<subseteq> set ''0123456789''"
proof (induction n rule: decimal.induct)
  case (1 n)
  show ?case
  proof (cases "n < 10")
    case True
    then show ?thesis using digit_nth[of n] by (subst decimal.simps) simp
  next
    case False
    have "n mod 10 < 10" by simp
    then have "''0123456789'' ! (n mod 10) \<in> set ''0123456789''" by (rule digit_nth)
    then show ?thesis using False "1.IH" by (subst decimal.simps) simp
  qed
qed

lemma decimal_not_Nil: "decimal n \<noteq> []"
  by (subst decimal.simps) simp

lemma zero_pad_digits: "set (zero_pad w n) \<subseteq> set ''0123456789''"
  using decimal_digits[of n] by (auto simp: zero_pad_def)

lemma zero_pad_not_Nil: "zero_pad w n \<noteq> []"
  by (simp add: zero_pad_def decimal_not_Nil)

lemma zero_pad_no_slash: "CHR ''/'' \<notin> set (zero_pad w n)"
  using zero_pad_digits[of w n] by auto

lemma zero_pad_not_dot: "zero_pad w n \<noteq> ''.''"
  using zero_pad_digits[of w n] by auto

lemma split_sep_not_Nil: "split_sep sep s \<noteq> []"
  by (induction s) (auto split: list.splits)

lemma split_sep_none: "sep \<notin> set a \<Longrightarrow> split_sep sep a = [a]"
  by (induction a) (auto split: list.splits)

lemma split_sep_append: "sep \<notin> set a \<Longrightarrow> split_sep sep (a @ sep # b) = a # split_sep sep b"
  by (induction a) (auto split: list.splits simp: split_sep_not_Nil)

lemma strftime_directory:
  "strftime dt ''%Y/%m/%d/'' =
     zero_pad 4 (year dt) @ ''/'' @ zero_pad 2 (month dt) @ ''/'' @ zero_pad 2 (day dt) @ ''/''"
  by (simp add: directive_def)

lemma strftime_file:
  "strftime dt ''%Y-%m-%d-%H-%M-%S-%f-%Z.md'' =
     zero_pad 4 (year dt) @ ''-'' @ zero_pad 2 (month dt) @ ''-'' @ zero_pad 2 (day dt) @ ''-'' @
     zero_pad 2 (hour dt) @ ''-'' @ zero_pad 2 (minute dt) @ ''-'' @ zero_pad 2 (second dt) @ ''-'' @
     zero_pad 6 (microsecond dt) @ ''-'' @ tzname dt @ ''.md''"
  by (simp add: directive_def)

lemma relative_root:
  assumes "s \<noteq> []" "CHR ''/'' \<noteq> hd s"
  shows "root (Path s) = ''''"
  using assms by (cases s) (simp_all add: Path_def)

lemma hd_zero_pad: "hd (zero_pad w n @ rest) \<noteq> CHR ''/''"
proof -
  have "hd (zero_pad w n @ rest) = hd (zero_pad w n)" by (simp add: zero_pad_not_Nil)
  moreover have "hd (zero_pad w n) \<in> set (zero_pad w n)" by (simp add: zero_pad_not_Nil)
  ultimately show ?thesis using zero_pad_no_slash[of w n] by metis
qed

lemma Path_directory:
  "Path (strftime dt ''%Y/%m/%d/'') =
     \<lparr>root = '''', names = [zero_pad 4 (year dt), zero_pad 2 (month dt), zero_pad 2 (day dt)]\<rparr>"
proof -
  let ?s = "strftime dt ''%Y/%m/%d/''"
  have r: "root (Path ?s) = ''''"
    unfolding strftime_directory
    by (rule relative_root) (use hd_zero_pad[of 4 "year dt"] zero_pad_not_Nil in auto)
  have "split_sep (CHR ''/'') ?s = [zero_pad 4 (year dt), zero_pad 2 (month dt), zero_pad 2 (day dt), '''']"
    unfolding strftime_directory
    by (simp add: split_sep_append zero_pad_no_slash)
  then have "names (Path ?s) = [zero_pad 4 (year dt), zero_pad 2 (month dt), zero_pad 2 (day dt)]"
    by (simp add: Path_def zero_pad_not_Nil zero_pad_not_dot)
  with r show ?thesis by (cases "Path ?s") simp
qed

lemma Path_single:
  assumes "CHR ''/'' \<notin> set s" "s \<noteq> []" "s \<noteq> ''.''"
  shows "Path s = \<lparr>root = '''', names = [s]\<rparr>"
proof -
  have "hd s \<in> set s" using assms(2) by simp
  then have "CHR ''/'' \<noteq> hd s" using assms(1) by metis
  then have r: "root (Path s) = ''''" using assms(2) by (rule relative_root[rotated])
  have "names (Path s) = [s]"
    unfolding Path_def using assms(2,3) by (simp add: split_sep_none[OF assms(1)])
  with r show ?thesis by (cases "Path s") simp
qed

lemma Path_file:
  assumes "CHR ''/'' \<notin> set (tzname dt)"
  shows "Path (strftime dt ''%Y-%m-%d-%H-%M-%S-%f-%Z.md'') =
     \<lparr>root = '''', names = [strftime dt ''%Y-%m-%d-%H-%M-%S-%f-%Z.md'']\<rparr>"
proof (rule Path_single)
  show "CHR ''/'' \<notin> set (strftime dt ''%Y-%m-%d-%H-%M-%S-%f-%Z.md'')"
    unfolding strftime_file using assms by (simp add: zero_pad_no_slash)
  have "length (strftime dt ''%Y-%m-%d-%H-%M-%S-%f-%Z.md'') \<ge> 3" unfolding strftime_file by simp
  then show "strftime dt ''%Y-%m-%d-%H-%M-%S-%f-%Z.md'' \<noteq> []"
    and "strftime dt ''%Y-%m-%d-%H-%M-%S-%f-%Z.md'' \<noteq> ''.''" by auto
qed

lemma markdown_file_str:
  assumes "CHR ''/'' \<notin> set (tzname (time_created e))"
  shows "path_str (markdown_file e) =
     zero_pad 4 (year (time_created e)) @ ''/'' @ zero_pad 2 (month (time_created e)) @ ''/'' @
     zero_pad 2 (day (time_created e)) @ ''/'' @ strftime (time_created e) ''%Y-%m-%d-%H-%M-%S-%f-%Z.md''"
  unfolding markdown_file_def markdown_directory_def Path_directory Path_file[OF assms]
  by (simp add: joinpath_def path_str_def)

text \<open>The definitions that evaluate the worked examples.\<close>

lemmas sample_eval =
  from_html_def convert_def meta_def div_class_def sample_library_def convert_meta_def
  convert_div_def convert_img_def sample_convert_img_def init_def float_if_def sample_strptime_def
  sample_astimezone_def sample_float_def is_digit_def number_def days_in_month_def
  strip_def isspace_def TIMEZONE_def Let_def py_in_def is_heading_def is_cell_def
  data_parser_def markdown_def values_of_def marker_def is_para_def
  jan15_def jan16_def stamped_def plain_entry_def

section \<open>The metadata handler\<close>

text \<open>
  Claim C8. For every element given to the metadata handler: the handler returns the
  empty text, and it has no branch that raises (the model is a total function with no
  error value). If the element has no string \<open>itemprop\<close> attribute, or no string
  \<open>content\<close> attribute, or its property name is none of tag, title, created, updated,
  latitude, longitude, altitude, the converter (tags, raw fields and photos) is returned
  unchanged.
\<close>

theorem convert_meta_ignores:
  "fst (convert_meta self el txt inl) = ''''
   \<and> ((\<forall>p. attrs el ''itemprop'' \<noteq> Some (Str p)) \<or> (\<forall>c. attrs el ''content'' \<noteq> Some (Str c))
        \<or> (\<exists>p. attrs el ''itemprop'' = Some (Str p)
               \<and> p \<notin> {''tag'', ''title'', ''created'', ''updated'', ''latitude'', ''longitude'', ''altitude''})
       \<longrightarrow> convert_meta self el txt inl = ('''', self))"
  unfolding convert_meta_def
  by (auto split: option.splits attr_value.splits)

theorem convert_meta_ignores_witness:
  "convert_meta init (Tag ''meta'' [''itemprop'' \<mapsto> Str ''tag''] []) ''x'' False = ('''', init)
   \<and> convert_meta init (Tag ''meta'' [''content'' \<mapsto> Str ''v''] []) ''x'' False = ('''', init)
   \<and> convert_meta init (Tag ''meta'' [''itemprop'' \<mapsto> Multi [''tag''], ''content'' \<mapsto> Str ''v''] []) ''x'' False
       = ('''', init)
   \<and> convert_meta init (Tag ''meta'' [''itemprop'' \<mapsto> Str ''author'', ''content'' \<mapsto> Str ''v''] []) ''x'' False
       = ('''', init)"
  using convert_meta_ignores[of init "Tag ''meta'' [''itemprop'' \<mapsto> Str ''tag''] []" "''x''" False]
    convert_meta_ignores[of init "Tag ''meta'' [''content'' \<mapsto> Str ''v''] []" "''x''" False]
    convert_meta_ignores[of init "Tag ''meta'' [''itemprop'' \<mapsto> Multi [''tag''], ''content'' \<mapsto> Str ''v''] []" "''x''" False]
    convert_meta_ignores[of init "Tag ''meta'' [''itemprop'' \<mapsto> Str ''author'', ''content'' \<mapsto> Str ''v''] []" "''x''" False]
  by simp

text \<open>
  Claim C10. A marker with property \<open>tag\<close> and the empty string as value adds the empty
  string to the tag set: the handler inserts it, the converter holds it after the
  traversal of a document with such a marker, and so does the tag set of the Entry.
  An empty coordinate string, in contrast, becomes an absent value.
\<close>

theorem empty_tag_is_kept:
  "(attrs el ''itemprop'' = Some (Str ''tag'') \<and> attrs el ''content'' = Some (Str '''')
      \<longrightarrow> found_tags (snd (convert_meta self el txt inl)) = insert '''' (found_tags self))
   \<and> ('''' \<in> set (values_of ''tag'' html)
      \<longrightarrow> '''' \<in> found_tags (data_parser lib html)
          \<and> (\<forall>e. from_html lib html = Inr e \<longrightarrow> '''' \<in> tags e))
   \<and> float_if lib '''' = Inr None"
proof -
  have a: "found_tags (snd (convert_meta self el txt inl)) = insert '''' (found_tags self)"
    if "attrs el ''itemprop'' = Some (Str ''tag'')" "attrs el ''content'' = Some (Str '''')"
    using that by (simp add: convert_meta_def)
  have b: "'''' \<in> tags e" if "'''' \<in> set (values_of ''tag'' html)" "from_html lib html = Inr e"
    for e :: "'a EvernoteEntry"
    using that from_html_fields(3)[OF that(2)] by (simp add: data_parser_fields(1))
  have c: "float_if lib '''' = Inr None" by (simp add: float_if_def)
  show ?thesis using a b c by (simp add: data_parser_fields(1))
qed

theorem empty_tag_is_kept_witness:
  "found_tags (snd (convert_meta init (Tag ''meta'' [''itemprop'' \<mapsto> Str ''tag'', ''content'' \<mapsto> Str ''''] [])
                      '''' False)) = {''''}
   \<and> values_of ''tag'' (stamped [meta ''tag'' '''']) = ['''']
   \<and> from_html sample_library (stamped [meta ''tag'' '''']) = Inr (plain_entry\<lparr>tags := {''''}\<rparr>)
   \<and> from_html sample_library (stamped [meta ''latitude'' '''']) = Inr plain_entry"
  using empty_tag_is_kept[of "Tag ''meta'' [''itemprop'' \<mapsto> Str ''tag'', ''content'' \<mapsto> Str ''''] []"
          init "''''" False "stamped [meta ''tag'' '''']" sample_library]
  by (simp add: sample_eval)

text \<open>
  Claim C6. \<open>values_of ''tag''\<close> lists the values of the N tag markers of a document. The
  tag set of the converter, and of the Entry, is the set of these values: it has as
  many elements as there are distinct values (K, at most N), two documents whose tag
  markers name the same values in another order or with other repetitions give the same
  set, and two markers with the same value \<open>x\<close> give the set \<open>{x}\<close> of size one.
\<close>

theorem tag_set_of_markers:
  "found_tags (data_parser lib html) = set (values_of ''tag'' html)
   \<and> (\<forall>e. from_html lib html = Inr e \<longrightarrow>
          tags e = set (values_of ''tag'' html)
        \<and> card (tags e) = length (remdups (values_of ''tag'' html))
        \<and> card (tags e) \<le> length (values_of ''tag'' html))
   \<and> (\<forall>html' e e'. set (values_of ''tag'' html') = set (values_of ''tag'' html)
          \<and> from_html lib html = Inr e \<and> from_html lib html' = Inr e' \<longrightarrow> tags e' = tags e)
   \<and> (\<forall>x e. values_of ''tag'' html = [x, x] \<and> from_html lib html = Inr e \<longrightarrow>
          tags e = {x} \<and> card (tags e) = 1)"
proof -
  have t: "tags e = set (values_of ''tag'' h)" if "from_html lib h = Inr e" for h and e :: "'a EvernoteEntry"
    using from_html_fields(3)[OF that] by (simp add: data_parser_fields(1))
  have c: "card (set (values_of ''tag'' html)) = length (remdups (values_of ''tag'' html))"
    by (simp add: length_remdups_card_conv)
  have l: "card (set (values_of ''tag'' html)) \<le> length (values_of ''tag'' html)"
    by (rule card_length)
  have 1: "found_tags (data_parser lib html) = set (values_of ''tag'' html)"
    by (rule data_parser_fields(1))
  have 2: "tags e = set (values_of ''tag'' html)
        \<and> card (tags e) = length (remdups (values_of ''tag'' html))
        \<and> card (tags e) \<le> length (values_of ''tag'' html)"
    if "from_html lib html = Inr e" for e
    using t[OF that] c l by simp
  have 3: "tags e' = tags e"
    if "set (values_of ''tag'' html') = set (values_of ''tag'' html)"
       "from_html lib html = Inr e" "from_html lib html' = Inr e'" for html' e e'
    using t[OF that(2)] t[OF that(3)] that(1) by simp
  have 4: "tags e = {x} \<and> card (tags e) = 1"
    if "values_of ''tag'' html = [x, x]" "from_html lib html = Inr e" for x e
    using t[OF that(2)] that(1) by simp
  show ?thesis using 1 2 3 4 by blast
qed

theorem tag_set_of_markers_witness:
  "values_of ''tag'' (meta ''tag'' ''x'' # stamped [meta ''tag'' ''x'']) = [''x'', ''x'']
   \<and> from_html sample_library (meta ''tag'' ''x'' # stamped [meta ''tag'' ''x''])
       = Inr (plain_entry\<lparr>tags := {''x''}\<rparr>)
   \<and> card {''x''} = (1::nat)
   \<and> values_of ''tag'' (stamped [meta ''tag'' ''b'', meta ''tag'' ''a'', meta ''tag'' ''b'']) = [''b'', ''a'', ''b'']
   \<and> from_html sample_library (stamped [meta ''tag'' ''b'', meta ''tag'' ''a'', meta ''tag'' ''b''])
       = Inr (plain_entry\<lparr>tags := {''a'', ''b''}\<rparr>)
   \<and> from_html sample_library (stamped [meta ''tag'' ''a'', meta ''tag'' ''b''])
       = Inr (plain_entry\<lparr>tags := {''a'', ''b''}\<rparr>)"
  using tag_set_of_markers[of sample_library "meta ''tag'' ''x'' # stamped [meta ''tag'' ''x'']"]
    tag_set_of_markers[of sample_library "stamped [meta ''tag'' ''b'', meta ''tag'' ''a'', meta ''tag'' ''b'']"]
  by (auto simp add: sample_eval)

text \<open>
  Claim C9. When a document has one or more markers with the property title, created,
  updated, latitude, longitude or altitude, the raw value the converter holds for that
  property after the traversal is the value of the last such marker in traversal order.
  The fields of the Entry come from these raw values: the title as it is, the two
  instants by parsing and conversion to the display zone, the coordinates by the float
  conversion.
\<close>

theorem last_marker_wins:
  "(values_of ''title'' html \<noteq> [] \<longrightarrow> found_title (data_parser lib html) = last (values_of ''title'' html))
   \<and> (values_of ''created'' html \<noteq> [] \<longrightarrow>
        EvernoteConverter.time_created (data_parser lib html) = last (values_of ''created'' html))
   \<and> (values_of ''updated'' html \<noteq> [] \<longrightarrow>
        EvernoteConverter.time_updated (data_parser lib html) = last (values_of ''updated'' html))
   \<and> (values_of ''latitude'' html \<noteq> [] \<longrightarrow> latitide (data_parser lib html) = last (values_of ''latitude'' html))
   \<and> (values_of ''longitude'' html \<noteq> [] \<longrightarrow>
        EvernoteConverter.longitude (data_parser lib html) = last (values_of ''longitude'' html))
   \<and> (values_of ''altitude'' html \<noteq> [] \<longrightarrow>
        EvernoteConverter.altitude (data_parser lib html) = last (values_of ''altitude'' html))
   \<and> (\<forall>e. from_html lib html = Inr e \<longrightarrow>
          title e = found_title (data_parser lib html)
        \<and> (\<exists>c. strptime lib (EvernoteConverter.time_created (data_parser lib html)) ''%Y%m%dT%H%M%S%z'' = Some c
               \<and> time_created e = astimezone lib c TIMEZONE)
        \<and> (\<exists>u. strptime lib (EvernoteConverter.time_updated (data_parser lib html)) ''%Y%m%dT%H%M%S%z'' = Some u
               \<and> time_updated e = astimezone lib u TIMEZONE)
        \<and> float_if lib (latitide (data_parser lib html)) = Inr (latitude e)
        \<and> float_if lib (EvernoteConverter.longitude (data_parser lib html)) = Inr (longitude e)
        \<and> float_if lib (EvernoteConverter.altitude (data_parser lib html)) = Inr (altitude e))"
proof -
  have raw: "values_of ''title'' html \<noteq> [] \<longrightarrow> found_title (data_parser lib html) = last (values_of ''title'' html)"
    "values_of ''created'' html \<noteq> [] \<longrightarrow>
        EvernoteConverter.time_created (data_parser lib html) = last (values_of ''created'' html)"
    "values_of ''updated'' html \<noteq> [] \<longrightarrow>
        EvernoteConverter.time_updated (data_parser lib html) = last (values_of ''updated'' html)"
    "values_of ''latitude'' html \<noteq> [] \<longrightarrow> latitide (data_parser lib html) = last (values_of ''latitude'' html)"
    "values_of ''longitude'' html \<noteq> [] \<longrightarrow>
        EvernoteConverter.longitude (data_parser lib html) = last (values_of ''longitude'' html)"
    "values_of ''altitude'' html \<noteq> [] \<longrightarrow>
        EvernoteConverter.altitude (data_parser lib html) = last (values_of ''altitude'' html)"
    by (simp_all add: data_parser_fields)
  have entry: "title e = found_title (data_parser lib html)
        \<and> (\<exists>c. strptime lib (EvernoteConverter.time_created (data_parser lib html)) ''%Y%m%dT%H%M%S%z'' = Some c
               \<and> time_created e = astimezone lib c TIMEZONE)
        \<and> (\<exists>u. strptime lib (EvernoteConverter.time_updated (data_parser lib html)) ''%Y%m%dT%H%M%S%z'' = Some u
               \<and> time_updated e = astimezone lib u TIMEZONE)
        \<and> float_if lib (latitide (data_parser lib html)) = Inr (latitude e)
        \<and> float_if lib (EvernoteConverter.longitude (data_parser lib html)) = Inr (longitude e)
        \<and> float_if lib (EvernoteConverter.altitude (data_parser lib html)) = Inr (altitude e)"
    if "from_html lib html = Inr e" for e
    using from_html_fields(1,5,6,7,8,9)[OF that] by blast
  show ?thesis using raw entry by blast
qed

theorem last_marker_wins_witness:
  "values_of ''title'' (meta ''title'' ''First'' # meta ''created'' ''19990101T000000+0000''
        # meta ''updated'' ''bad'' # meta ''latitude'' ''1'' # meta ''longitude'' ''2'' # meta ''altitude'' ''x''
        # stamped [meta ''latitude'' ''51'', meta ''longitude'' ''0'', meta ''altitude'' ''35'',
                   meta ''title'' ''Second'']) = [''First'', ''Second'']
   \<and> values_of ''created'' (meta ''title'' ''First'' # meta ''created'' ''19990101T000000+0000''
        # meta ''updated'' ''bad'' # meta ''latitude'' ''1'' # meta ''longitude'' ''2'' # meta ''altitude'' ''x''
        # stamped [meta ''latitude'' ''51'', meta ''longitude'' ''0'', meta ''altitude'' ''35'',
                   meta ''title'' ''Second'']) = [''19990101T000000+0000'', ''20230115T093000+0000'']
   \<and> from_html sample_library
        (meta ''title'' ''First'' # meta ''created'' ''19990101T000000+0000''
        # meta ''updated'' ''bad'' # meta ''latitude'' ''1'' # meta ''longitude'' ''2'' # meta ''altitude'' ''x''
        # stamped [meta ''latitude'' ''51'', meta ''longitude'' ''0'', meta ''altitude'' ''35'',
                   meta ''title'' ''Second''])
      = Inr (plain_entry\<lparr>title := ''Second'', latitude := Some 51, longitude := Some 0, altitude := Some 35\<rparr>)"
  using last_marker_wins[of "meta ''title'' ''First'' # meta ''created'' ''19990101T000000+0000''
        # meta ''updated'' ''bad'' # meta ''latitude'' ''1'' # meta ''longitude'' ''2'' # meta ''altitude'' ''x''
        # stamped [meta ''latitude'' ''51'', meta ''longitude'' ''0'', meta ''altitude'' ''35'',
                   meta ''title'' ''Second'']" sample_library]
  by (simp add: sample_eval)

section \<open>The image handler\<close>

text \<open>
  Claim C7. For every image element given to the image handler: the text it returns is
  the library's image conversion of that element, with or without a \<open>src\<close> attribute and
  whatever the converter holds, so recording the photo does not touch the text. With a
  \<open>src\<close> attribute its value is appended to the photo list, without one the converter is
  unchanged. After the traversal the photo list, and the one of the Entry, is the list
  of the \<open>src\<close> values in the order met, repetitions kept.
\<close>

theorem convert_img_records_src:
  "fst (convert_img lib at self el txt inl) = super_convert_img lib at el txt inl
   \<and> (\<forall>v. attrs el ''src'' = Some v \<longrightarrow>
          snd (convert_img lib at self el txt inl)
            = self\<lparr>EvernoteConverter.photos := EvernoteConverter.photos self @ [v]\<rparr>)
   \<and> (attrs el ''src'' = None \<longrightarrow> snd (convert_img lib at self el txt inl) = self)
   \<and> EvernoteConverter.photos (data_parser lib html) = sources html
   \<and> (\<forall>e. from_html lib html = Inr e \<longrightarrow> photos e = sources html)"
proof -
  have p: "photos e = sources html" if "from_html lib html = Inr e" for e
    using from_html_fields(4)[OF that] by (simp add: data_parser_fields(8))
  show ?thesis using p by (simp add: convert_img_def data_parser_fields(8))
qed

theorem convert_img_records_src_witness:
  "convert_img sample_library ([], []) init (Tag ''img'' [''src'' \<mapsto> Str ''a.png''] []) '''' False
     = (''![](a.png)'', init\<lparr>EvernoteConverter.photos := [Str ''a.png'']\<rparr>)
   \<and> convert_img sample_library ([], []) init (Tag ''img'' Map.empty []) '''' False = (''![]()'', init)
   \<and> sources (stamped [Element (Tag ''img'' [''src'' \<mapsto> Str ''b.png''] []),
                        Element (Tag ''img'' [''src'' \<mapsto> Str ''a.png''] []),
                        Element (Tag ''img'' Map.empty []),
                        Element (Tag ''img'' [''src'' \<mapsto> Str ''b.png''] [])])
       = [Str ''b.png'', Str ''a.png'', Str ''b.png'']
   \<and> from_html sample_library
        (stamped [Element (Tag ''img'' [''src'' \<mapsto> Str ''b.png''] []),
                  Element (Tag ''img'' [''src'' \<mapsto> Str ''a.png''] []),
                  Element (Tag ''img'' Map.empty []),
                  Element (Tag ''img'' [''src'' \<mapsto> Str ''b.png''] [])])
      = Inr (plain_entry\<lparr>text := ''![](b.png)![](a.png)![]()![](b.png)'',
                          photos := [Str ''b.png'', Str ''a.png'', Str ''b.png'']\<rparr>)"
  using convert_img_records_src[of sample_library "([], [])" init "Tag ''img'' [''src'' \<mapsto> Str ''a.png''] []" "''''" False
          "stamped [Element (Tag ''img'' [''src'' \<mapsto> Str ''b.png''] []),
                    Element (Tag ''img'' [''src'' \<mapsto> Str ''a.png''] []),
                    Element (Tag ''img'' Map.empty []),
                    Element (Tag ''img'' [''src'' \<mapsto> Str ''b.png''] [])]"]
    convert_img_records_src[of sample_library "([], [])" init "Tag ''img'' Map.empty []" "''''" False "[]"]
  by (simp add: sample_eval)

section \<open>Assembly of the Entry\<close>






section \<open>The text of the Entry\<close>

text \<open>
  Claim C4, as stated, fails for the children of an unmarked \<open>div\<close>: the handler returns
  the empty text in place of what the children produced. A paragraph block alone converts
  to \<open>Hello\<close> and a line break; the same block inside a \<open>div\<close> without class converts to
  nothing.
\<close>

theorem unmarked_div_counterexample:
  "convert sample_library init [div_class ''para'' [NavigableString ''Hello'']] = (''Hello'' @ [CHR 0x0A], init)
   \<and> \<not> is_para (Tag ''div'' Map.empty [div_class ''para'' [NavigableString ''Hello'']])
   \<and> convert sample_library init
         [Element (Tag ''div'' Map.empty [div_class ''para'' [NavigableString ''Hello'']])] = ('''', init)"
  by (simp add: sample_eval)

text \<open>
  Claim C4, amended. For every \<open>div\<close> element visited: if it carries the paragraph marker
  it contributes the text of its children, stripped of white space at both ends and
  followed by one line break; if it lacks the marker or has no class attribute, the
  element contributes the empty text, the text of its children included. In both cases
  the children have been visited and what they recorded in the converter is kept.
\<close>

theorem convert_div_amended:
  "convert_div self el txt inl = (if is_para el then strip txt @ [CHR 0x0A] else '''', self)
   \<and> (attrs el ''class'' = None \<longrightarrow> \<not> is_para el)
   \<and> (name el = ''div'' \<longrightarrow>
        process_tag lib doc at el inl self =
          (if is_para el
           then strip (fst (process_children lib doc at 0 (contents el) inl self)) @ [CHR 0x0A]
           else '''',
           snd (process_children lib doc at 0 (contents el) inl self)))"
proof -
  have 1: "convert_div self el txt inl = (if is_para el then strip txt @ [CHR 0x0A] else '''', self)"
    by (simp add: convert_div_def is_para_def split: option.splits)
  have 2: "attrs el ''class'' = None \<longrightarrow> \<not> is_para el"
    by (simp add: is_para_def)
  have 3: "process_tag lib doc at el inl self =
          (if is_para el
           then strip (fst (process_children lib doc at 0 (contents el) inl self)) @ [CHR 0x0A]
           else '''',
           snd (process_children lib doc at 0 (contents el) inl self))"
    if d: "name el = ''div''"
  proof -
    obtain atts children where el: "el = Tag ''div'' atts children"
      using d by (cases el) auto
    show ?thesis unfolding el process_tag_div by (simp split: prod.splits)
  qed
  show ?thesis using 1 2 3 by blast
qed

theorem convert_div_amended_witness:
  "process_tag sample_library [] [] (Tag ''div'' [''class'' \<mapsto> Multi [''note'', ''para'']]
                                        [NavigableString '' Hello world '', meta ''tag'' ''x'']) False init
       = (''Hello world'' @ [CHR 0x0A], init\<lparr>found_tags := {''x''}\<rparr>)
   \<and> process_tag sample_library [] [] (Tag ''div'' [''class'' \<mapsto> Multi [''note'']]
                                        [NavigableString '' Hello world '', meta ''tag'' ''x'']) False init
       = ('''', init\<lparr>found_tags := {''x''}\<rparr>)
   \<and> process_tag sample_library [] [] (Tag ''div'' Map.empty
                                        [NavigableString '' Hello world '', meta ''tag'' ''x'']) False init
       = ('''', init\<lparr>found_tags := {''x''}\<rparr>)"
  using convert_div_amended[of init "Tag ''div'' [''class'' \<mapsto> Multi [''note'', ''para'']]
                                        [NavigableString '' Hello world '', meta ''tag'' ''x'']" "''''" False
          sample_library "[]" "[]"]
    convert_div_amended[of init "Tag ''div'' [''class'' \<mapsto> Multi [''note'']]
                                        [NavigableString '' Hello world '', meta ''tag'' ''x'']" "''''" False
          sample_library "[]" "[]"]
    convert_div_amended[of init "Tag ''div'' Map.empty
                                        [NavigableString '' Hello world '', meta ''tag'' ''x'']" "''''" False
          sample_library "[]" "[]"]
  by (simp add: sample_eval)

text \<open>
  Claim C3, as stated, fails for text outside the \<open>div\<close> elements: it is converted by the
  library's rules and reaches the Entry. The document below has no paragraph-marked
  container and gives the text \<open>hello\<close>.
\<close>

theorem no_para_counterexample:
  "\<not> has_para [Element (Tag ''body'' Map.empty (stamped [NavigableString ''hello'']))]
   \<and> from_html sample_library [Element (Tag ''body'' Map.empty (stamped [NavigableString ''hello'']))]
       = Inr (plain_entry\<lparr>text := ''hello''\<rparr>)"
  by (simp add: sample_eval)

text \<open>
  Claim C3, amended. For every document that contains no paragraph-marked container and
  has nothing but white space outside its \<open>div\<close> elements (\<open>blank_outside\<close>), the
  text of the resulting Entry is the empty string, whatever the \<open>div\<close> elements contain.
\<close>

theorem no_para_amended:
  "\<not> has_para html \<and> blank_outside lib html [] 0 html \<longrightarrow>
     markdown lib html = '''' \<and> (\<forall>e. from_html lib html = Inr e \<longrightarrow> text e = '''')"
proof -
  have "text e = ''''"
    if "\<not> has_para html" "blank_outside lib html [] 0 html" "from_html lib html = Inr e" for e
    using from_html_fields(2)[OF that(3)] markdown_blank[OF that(1,2)] by simp
  then show ?thesis using markdown_blank by blast
qed

theorem no_para_amended_witness:
  "\<not> has_para [Element (Tag ''body'' Map.empty
                   (stamped [NavigableString '' '', div_class ''note'' [NavigableString ''hidden'']]))]
   \<and> blank_outside sample_library
        [Element (Tag ''body'' Map.empty
           (stamped [NavigableString '' '', div_class ''note'' [NavigableString ''hidden'']]))] [] 0
        [Element (Tag ''body'' Map.empty
           (stamped [NavigableString '' '', div_class ''note'' [NavigableString ''hidden'']]))]
   \<and> from_html sample_library
        [Element (Tag ''body'' Map.empty
           (stamped [NavigableString '' '', div_class ''note'' [NavigableString ''hidden'']]))]
       = Inr plain_entry"
  using no_para_amended[of "[Element (Tag ''body'' Map.empty
           (stamped [NavigableString '' '', div_class ''note'' [NavigableString ''hidden'']]))]" sample_library]
  by (simp add: sample_eval)

section \<open>The path of the Markdown file\<close>

text \<open>
  Claim C2. The path of the Markdown file is a function of the creation instant alone:
  two Entries with the same creation instant have the same path, whatever their other
  fields. The directory is \<open>YYYY/MM/DD\<close>, and where the zone abbreviation has no slash
  the path reads \<open>YYYY/MM/DD/YYYY-MM-DD-HH-MM-SS-ffffff-ZONE.md\<close>, every field taken from the
  creation instant and zero-padded. The instant 2023-01-15 09:30:00.123456 with the
  abbreviation GMT gives \<open>2023/01/15/2023-01-15-09-30-00-123456-GMT.md\<close>.
\<close>

theorem markdown_file_of_creation_instant:
  "(\<forall>e' :: 'a EvernoteEntry. time_created e' = time_created e \<longrightarrow> markdown_file e' = markdown_file e)
   \<and> path_str (markdown_directory e) =
        zero_pad 4 (year (time_created e)) @ ''/'' @ zero_pad 2 (month (time_created e)) @ ''/'' @
        zero_pad 2 (day (time_created e))
   \<and> (CHR ''/'' \<notin> set (tzname (time_created e)) \<longrightarrow>
        path_str (markdown_file e) =
          zero_pad 4 (year (time_created e)) @ ''/'' @ zero_pad 2 (month (time_created e)) @ ''/'' @
          zero_pad 2 (day (time_created e)) @ ''/'' @
          zero_pad 4 (year (time_created e)) @ ''-'' @ zero_pad 2 (month (time_created e)) @ ''-'' @
          zero_pad 2 (day (time_created e)) @ ''-'' @ zero_pad 2 (hour (time_created e)) @ ''-'' @
          zero_pad 2 (minute (time_created e)) @ ''-'' @ zero_pad 2 (second (time_created e)) @ ''-'' @
          zero_pad 6 (microsecond (time_created e)) @ ''-'' @ tzname (time_created e) @ ''.md'')
   \<and> (time_created e = \<lparr>year = 2023, month = 1, day = 15, hour = 9, minute = 30, second = 0,
                         microsecond = 123456, utcoffset = 0, tzname = ''GMT''\<rparr> \<longrightarrow>
        path_str (markdown_file e) = ''2023/01/15/2023-01-15-09-30-00-123456-GMT.md'')"
proof -
  have 1: "markdown_file e' = markdown_file e" if "time_created e' = time_created e"
    for e' :: "'a EvernoteEntry"
    using that by (simp add: markdown_file_def markdown_directory_def)
  have 2: "path_str (markdown_directory e) =
        zero_pad 4 (year (time_created e)) @ ''/'' @ zero_pad 2 (month (time_created e)) @ ''/'' @
        zero_pad 2 (day (time_created e))"
    unfolding markdown_directory_def Path_directory by (simp add: path_str_def)
  have 3: "path_str (markdown_file e) =
          zero_pad 4 (year (time_created e)) @ ''/'' @ zero_pad 2 (month (time_created e)) @ ''/'' @
          zero_pad 2 (day (time_created e)) @ ''/'' @
          zero_pad 4 (year (time_created e)) @ ''-'' @ zero_pad 2 (month (time_created e)) @ ''-'' @
          zero_pad 2 (day (time_created e)) @ ''-'' @ zero_pad 2 (hour (time_created e)) @ ''-'' @
          zero_pad 2 (minute (time_created e)) @ ''-'' @ zero_pad 2 (second (time_created e)) @ ''-'' @
          zero_pad 6 (microsecond (time_created e)) @ ''-'' @ tzname (time_created e) @ ''.md''"
    if "CHR ''/'' \<notin> set (tzname (time_created e))"
    unfolding markdown_file_str[OF that] strftime_file by simp
  have 4: "path_str (markdown_file e) = ''2023/01/15/2023-01-15-09-30-00-123456-GMT.md''"
    if t: "time_created e = \<lparr>year = 2023, month = 1, day = 15, hour = 9, minute = 30, second = 0,
                         microsecond = 123456, utcoffset = 0, tzname = ''GMT''\<rparr>"
  proof -
    have "CHR ''/'' \<notin> set (tzname (time_created e))" by (simp add: t)
    from 3[OF this] show ?thesis
      by (simp add: t zero_pad_def decimal.simps)
  qed
  show ?thesis using 1 2 3 4 by blast
qed

theorem markdown_file_of_creation_instant_witness:
  "markdown_file (plain_entry\<lparr>time_created := jan15\<lparr>microsecond := 123456\<rparr>\<rparr>)
     = markdown_file (plain_entry\<lparr>title := ''Trip'', text := ''Hello world'', tags := {''x''},
                                  time_created := jan15\<lparr>microsecond := 123456\<rparr>,
                                  time_updated := jan15, latitude := Some 51, photos := [Str ''a.png'']\<rparr>)
   \<and> path_str (markdown_directory (plain_entry\<lparr>time_created := jan15\<lparr>microsecond := 123456\<rparr>\<rparr>))
       = ''2023/01/15''
   \<and> path_str (markdown_file (plain_entry\<lparr>time_created := jan15\<lparr>microsecond := 123456\<rparr>\<rparr>))
       = ''2023/01/15/2023-01-15-09-30-00-123456-GMT.md''"
proof -
  let ?e = "plain_entry\<lparr>time_created := jan15\<lparr>microsecond := 123456\<rparr>\<rparr>"
  let ?e' = "plain_entry\<lparr>title := ''Trip'', text := ''Hello world'', tags := {''x''},
                                  time_created := jan15\<lparr>microsecond := 123456\<rparr>,
                                  time_updated := jan15, latitude := Some 51, photos := [Str ''a.png'']\<rparr>"
  note t = markdown_file_of_creation_instant[of ?e']
  have a: "markdown_file ?e = markdown_file ?e'"
    using t[THEN conjunct1, rule_format, of ?e] by simp
  have same: "markdown_directory ?e = markdown_directory ?e'"
    by (simp add: markdown_directory_def)
  have b: "path_str (markdown_directory ?e) = ''2023/01/15''"
    unfolding same using t[THEN conjunct2, THEN conjunct1]
    by (simp add: jan15_def zero_pad_def decimal.simps)
  have c: "path_str (markdown_file ?e) = ''2023/01/15/2023-01-15-09-30-00-123456-GMT.md''"
    unfolding a using t[THEN conjunct2, THEN conjunct2, THEN conjunct2]
    by (simp add: jan15_def)
  show ?thesis using a b c by blast
qed

end
